theory Spec2Isabelle
  imports Complex_Main "HOL-Library.Char_ord" "HOL-Library.List_Lexorder" "HOL-Library.Multiset"
begin

text \<open>
  A model of the team registration and scoreboard application: the identifier generator,
  the registration and score-update functions of \<^verbatim>\<open>src/lib/firestore.ts\<close>, the scoreboard
  list, and the HTTP handlers of \<^verbatim>\<open>/api/register\<close> and \<^verbatim>\<open>/api/update-score\<close>. The
  repository holds three versions of \<^verbatim>\<open>src/lib/firestore.ts\<close>: two for Firestore (documents
  keyed by team name, or by a key the store generates) and one for the Realtime Database
  (nodes keyed by the team's identifier). The Firestore version keyed by team name and the
  Realtime Database version are modelled; \<^verbatim>\<open>updateScore\<close> is the same text in both
  Firestore versions.
\<close>

section \<open>Data model\<close>

text \<open>
  The \<^verbatim>\<open>Team\<close> interface of \<^verbatim>\<open>src/lib/firestore.ts\<close>. The optional \<^verbatim>\<open>id\<close> is the
  field \<open>docId\<close> (the name \<open>id\<close> is taken in HOL). \<^verbatim>\<open>score\<close> and \<^verbatim>\<open>teamNumber\<close> are
  JavaScript numbers. The model holds the integer-valued ones, as unbounded integers: a
  new record has score 0 and a count plus one as its number, and the score then changes by
  the increments of \<^verbatim>\<open>updateScore\<close>. An increment with a fractional part, which
  \<^verbatim>\<open>/api/update-score\<close> lets through, is outside the model. Where the code itself
  adds two numbers, the rounding of the 64-bit floating-point format is written out
  (\<open>js_add\<close> below). \<^verbatim>\<open>createdAt\<close> is the clock's reading. Strings are lists of
  characters, one per code unit.
\<close>

record Team =
  docId :: "string option"
  teamNumber :: int
  teamName :: string
  uid :: string
  player1 :: string
  player2 :: string
  email :: string
  phoneNumber :: string
  score :: int
  createdAt :: int

text \<open>
  What a \<^verbatim>\<open>catch\<close> block can receive: an \<^verbatim>\<open>Error\<close> with its message (the store's
  client library throws such objects), or a value that is not an \<^verbatim>\<open>Error\<close>.
\<close>

datatype thrown = Error string | NonError

text \<open>
  The hosted store is outside the repository. Each call to it either answers or rejects;
  a \<open>fault\<close> says which: \<open>None\<close> for an answer, \<open>Some e\<close> for a rejection with \<open>e\<close>.
  A rejected write changes nothing.
\<close>

type_synonym fault = "thrown option"

text \<open>
  A collection is the list of its documents, each with its key, in the order in which the
  store enumerates them (ascending key); keys are unique. The Firestore variants keep one
  collection \<^verbatim>\<open>teams\<close>; the Realtime Database variant keeps the team nodes directly
  under the root. A value of this type is a state of the collection, so its keys are keys of
  the store: what the store requires of a key, and where a write under a string that is
  not a key ends up, is not modelled.
\<close>

type_synonym store = "(string \<times> Team) list"

definition has_key :: "store \<Rightarrow> string \<Rightarrow> bool" where
  "has_key st k = (map_of st k \<noteq> None)"

definition put :: "string \<Rightarrow> Team \<Rightarrow> store \<Rightarrow> store" where
  "put k v st =
     (if has_key st k then map (\<lambda>kv. if fst kv = k then (k, v) else kv) st
      else insort_key fst (k, v) st)"

definition modify :: "string \<Rightarrow> (Team \<Rightarrow> Team) \<Rightarrow> store \<Rightarrow> store" where
  "modify k f st = map (\<lambda>kv. if fst kv = k then (fst kv, f (snd kv)) else kv) st"

subsection \<open>The Firestore client calls used by the code\<close>

definition getDoc :: "fault \<Rightarrow> store \<Rightarrow> string \<Rightarrow> thrown + Team option" where
  "getDoc f st k = (case f of Some e \<Rightarrow> Inl e | None \<Rightarrow> Inr (map_of st k))"

definition getDocs :: "fault \<Rightarrow> store \<Rightarrow> thrown + store" where
  "getDocs f st = (case f of Some e \<Rightarrow> Inl e | None \<Rightarrow> Inr st)"

definition getDocs_where :: "fault \<Rightarrow> (Team \<Rightarrow> bool) \<Rightarrow> store \<Rightarrow> thrown + store" where
  "getDocs_where f p st =
     (case f of Some e \<Rightarrow> Inl e | None \<Rightarrow> Inr (filter (\<lambda>kv. p (snd kv)) st))"

definition setDoc :: "fault \<Rightarrow> string \<Rightarrow> Team \<Rightarrow> store \<Rightarrow> thrown + store" where
  "setDoc f k v st = (case f of Some e \<Rightarrow> Inl e | None \<Rightarrow> Inr (put k v st))"

text \<open>
  \<^verbatim>\<open>updateDoc(ref, {score: increment(n)})\<close>: the store adds \<open>n\<close> to the field. The
  addition is the store's own, on its number types; the model adds the integers.
\<close>

definition updateDoc_increment :: "fault \<Rightarrow> string \<Rightarrow> int \<Rightarrow> store \<Rightarrow> thrown + store" where
  "updateDoc_increment f k n st =
     (case f of Some e \<Rightarrow> Inl e
      | None \<Rightarrow> Inr (modify k (\<lambda>t. t\<lparr>score := score t + n\<rparr>) st))"

section \<open>Identifier generator\<close>

definition chars :: string where
  "chars = ''ABCDEFGHIJKLMNOPQRSTUVWXYZabcdefghijklmnopqrstuvwxyz0123456789''"

text \<open>\<^verbatim>\<open>String.prototype.charAt\<close>: the empty string outside the string.\<close>

definition charAt :: "string \<Rightarrow> int \<Rightarrow> string" where
  "charAt s i = (if 0 \<le> i \<and> i < int (length s) then [s ! nat i] else [])"

text \<open>
  \<^verbatim>\<open>generateUID\<close>. The argument \<open>random\<close> gives the value of the \<open>i\<close>-th call of
  \<^verbatim>\<open>Math.random()\<close>, a number in \<open>[0, 1)\<close>. The product with the length is taken
  exactly; the code rounds it to a floating-point number before it takes the floor.
\<close>

definition generateUID :: "(nat \<Rightarrow> real) \<Rightarrow> string" where
  "generateUID random =
     foldl (\<lambda>result i. result @ charAt chars \<lfloor>random i * real (length chars)\<rfloor>) [] [0..<5]"

section \<open>Registration and score update, Firestore variant keyed by team name\<close>

text \<open>The faults of the store calls one registration makes.\<close>

record faults =
  f_signIn :: fault
  f_name :: fault
  f_email :: fault
  f_count :: fault
  f_write :: fault

definition no_faults :: faults where
  "no_faults = \<lparr>f_signIn = None, f_name = None, f_email = None, f_count = None, f_write = None\<rparr>"

definition isTeamNameTaken :: "fault \<Rightarrow> store \<Rightarrow> string \<Rightarrow> bool" where
  "isTeamNameTaken f st name =
     (case getDoc f st name of
        Inr teamSnapshot \<Rightarrow> teamSnapshot \<noteq> None
      | Inl error \<Rightarrow> True)"

definition isEmailTaken :: "fault \<Rightarrow> store \<Rightarrow> string \<Rightarrow> bool" where
  "isEmailTaken f st mail =
     (case getDocs_where f (\<lambda>t. email t = mail) st of
        Inr snapshot \<Rightarrow> snapshot \<noteq> []
      | Inl error \<Rightarrow> True)"

definition getNextTeamNumber :: "fault \<Rightarrow> store \<Rightarrow> int" where
  "getNextTeamNumber f st =
     (case getDocs f st of
        Inr snapshot \<Rightarrow> int (length snapshot) + 1
      | Inl error \<Rightarrow> 1)"

definition name_taken_message :: "string \<Rightarrow> string" where
  "name_taken_message name =
     ''Team name \"'' @ name @ ''\" is already taken. Please choose a different name.''"

definition email_taken_message :: string where
  "email_taken_message = ''This email address is already registered. Please use a different email.''"

text \<open>The \<^verbatim>\<open>catch\<close> block of \<^verbatim>\<open>registerTeam\<close>: an \<^verbatim>\<open>Error\<close> is thrown again as it is.\<close>

definition rethrow :: "thrown \<Rightarrow> thrown" where
  "rethrow e = (case e of Error m \<Rightarrow> Error m
                | NonError \<Rightarrow> Error ''Failed to register team. Please try again.'')"

definition registerTeam ::
  "faults \<Rightarrow> (nat \<Rightarrow> real) \<Rightarrow> int \<Rightarrow> string \<Rightarrow> string \<Rightarrow> string \<Rightarrow> string \<Rightarrow> string \<Rightarrow> store
     \<Rightarrow> (thrown + Team) \<times> store" where
  "registerTeam F random now name p1 p2 mail phone st =
     (let isNameTaken = isTeamNameTaken (f_name F) st name;
          isEmailAlreadyUsed = isEmailTaken (f_email F) st mail
      in if isNameTaken then (Inl (rethrow (Error (name_taken_message name))), st)
         else if isEmailAlreadyUsed then (Inl (rethrow (Error email_taken_message)), st)
         else
           let u = generateUID random;
               n = getNextTeamNumber (f_count F) st;
               teamData = \<lparr>docId = None, teamNumber = n, teamName = name, uid = u,
                            player1 = p1, player2 = p2, email = mail, phoneNumber = phone,
                            score = 0, createdAt = now\<rparr>
           in (case setDoc (f_write F) name teamData st of
                 Inl error \<Rightarrow> (Inl (rethrow error), st)
               | Inr st' \<Rightarrow> (Inr (teamData\<lparr>docId := Some name\<rparr>), st')))"

definition updateScore :: "fault \<Rightarrow> fault \<Rightarrow> string \<Rightarrow> int \<Rightarrow> store \<Rightarrow> (thrown + bool) \<times> store" where
  "updateScore f_query f_update u scoreIncrement st =
     (case getDocs_where f_query (\<lambda>t. uid t = u) st of
        Inl error \<Rightarrow> (Inl error, st)
      | Inr querySnapshot \<Rightarrow>
          (case querySnapshot of
             [] \<Rightarrow> (Inl (Error ''Team not found with the provided UID''), st)
           | teamDoc # rest \<Rightarrow>
               (case updateDoc_increment f_update (fst teamDoc) scoreIncrement st of
                  Inl error \<Rightarrow> (Inl error, st)
                | Inr st' \<Rightarrow> (Inr True, st'))))"

section \<open>The scoreboard list\<close>

text \<open>
  \<^verbatim>\<open>Array.prototype.sort\<close> with a comparison function, as the language defines it for a
  consistent comparator: a stable sort, \<open>a\<close> before \<open>b\<close> when \<open>compare a b < 0\<close>. It is
  written as an insertion sort.
\<close>

fun insert_sorted :: "('a \<Rightarrow> 'a \<Rightarrow> int) \<Rightarrow> 'a \<Rightarrow> 'a list \<Rightarrow> 'a list" where
  "insert_sorted compare x [] = [x]"
| "insert_sorted compare x (y # ys) =
     (if compare x y \<le> 0 then x # y # ys else y # insert_sorted compare x ys)"

definition array_sort :: "('a \<Rightarrow> 'a \<Rightarrow> int) \<Rightarrow> 'a list \<Rightarrow> 'a list" where
  "array_sort compare xs = foldr (insert_sorted compare) xs []"

text \<open>
  The comparison function of \<^verbatim>\<open>getAllTeams\<close> (Realtime Database variant). The
  difference of two floating-point numbers has the sign of their exact difference, so on
  integer-valued numbers it is the difference of the integers as far as the sort looks at
  it.
\<close>

definition compareTeams :: "Team \<Rightarrow> Team \<Rightarrow> int" where
  "compareTeams a b =
     (if score b \<noteq> score a then score b - score a else teamNumber a - teamNumber b)"

text \<open>
  \<^verbatim>\<open>getAllTeams\<close> of the Firestore variants does not sort. It sends the query
  \<^verbatim>\<open>orderBy('score', 'desc'), orderBy('teamNumber', 'asc')\<close> to the store, which is outside
  the repository; \<open>answer\<close> is what \<^verbatim>\<open>await getDocs(q)\<close> gives, the documents in the
  order the store chose or a rejection. Each document becomes
  \<^verbatim>\<open>{id: doc.id, ...doc.data()}\<close>, in which a field \<^verbatim>\<open>id\<close> of the document's own data
  takes precedence over the key.
\<close>

definition with_id :: "string \<times> Team \<Rightarrow> Team" where
  "with_id doc =
     (case docId (snd doc) of
        None \<Rightarrow> (snd doc)\<lparr>docId := Some (fst doc)\<rparr>
      | Some own \<Rightarrow> snd doc)"

definition getAllTeams :: "thrown + store \<Rightarrow> Team list" where
  "getAllTeams answer =
     (case answer of
        Inr snapshot \<Rightarrow> map with_id snapshot
      | Inl error \<Rightarrow> [])"

section \<open>Arithmetic on JavaScript numbers\<close>





section \<open>Realtime Database variant, keyed by identifier\<close>

text \<open>
  The root holds one node per team under the team's \<^verbatim>\<open>uid\<close>; only \<^verbatim>\<open>registerTeam\<close> and
  \<^verbatim>\<open>updateScore\<close> write to it, so every node is a team record. \<open>f_auth\<close> is \<open>None\<close> when
  a user is signed in or the anonymous sign-in succeeds. \<^verbatim>\<open>ref(db, uid)\<close> reads its
  argument as a path. The model takes it as the key of a node under the root, which it is
  for a non-empty string of letters and digits, such as \<^verbatim>\<open>generateUID\<close> makes. For the
  empty string, and for a string with a slash or another character that a key cannot
  have, the code addresses another location or throws; that is outside the model.
\<close>

definition ensureAuth :: "fault \<Rightarrow> thrown + unit" where
  "ensureAuth f_auth =
     (case f_auth of Some e \<Rightarrow> Inl (Error ''Authentication required'') | None \<Rightarrow> Inr ())"

definition rtdb_get_root :: "fault \<Rightarrow> store \<Rightarrow> thrown + store" where
  "rtdb_get_root f db = (case f of Some e \<Rightarrow> Inl e | None \<Rightarrow> Inr db)"


definition rtdb_set :: "fault \<Rightarrow> string \<Rightarrow> Team \<Rightarrow> store \<Rightarrow> thrown + store" where
  "rtdb_set f k v db = (case f of Some e \<Rightarrow> Inl e | None \<Rightarrow> Inr (put k v db))"


text \<open>\<^verbatim>\<open>allData[uid] && allData[uid].teamName\<close>: the node has a non-empty team name.\<close>

definition valid_node :: "string \<times> Team \<Rightarrow> bool" where
  "valid_node kv = (teamName (snd kv) \<noteq> [])"

definition rtdb_isTeamNameTaken :: "fault \<Rightarrow> fault \<Rightarrow> store \<Rightarrow> string \<Rightarrow> bool" where
  "rtdb_isTeamNameTaken f_auth f db name =
     (case ensureAuth f_auth of
        Inl error \<Rightarrow> True
      | Inr _ \<Rightarrow>
          (case rtdb_get_root f db of
             Inl error \<Rightarrow> True
           | Inr allData \<Rightarrow>
               if allData = [] then False
               else list_ex (\<lambda>kv. teamName (snd kv) = name) allData))"

definition rtdb_isEmailTaken :: "fault \<Rightarrow> fault \<Rightarrow> store \<Rightarrow> string \<Rightarrow> bool" where
  "rtdb_isEmailTaken f_auth f db mail =
     (case ensureAuth f_auth of
        Inl error \<Rightarrow> True
      | Inr _ \<Rightarrow>
          (case rtdb_get_root f db of
             Inl error \<Rightarrow> True
           | Inr allData \<Rightarrow>
               if allData = [] then False
               else list_ex (\<lambda>kv. email (snd kv) = mail) allData))"

definition rtdb_getNextTeamNumber :: "fault \<Rightarrow> fault \<Rightarrow> store \<Rightarrow> int" where
  "rtdb_getNextTeamNumber f_auth f db =
     (case ensureAuth f_auth of
        Inl error \<Rightarrow> 1
      | Inr _ \<Rightarrow>
          (case rtdb_get_root f db of
             Inl error \<Rightarrow> 1
           | Inr allData \<Rightarrow>
               if allData = [] then 1
               else int (length (filter valid_node allData)) + 1))"

definition rtdb_registerTeam ::
  "faults \<Rightarrow> (nat \<Rightarrow> real) \<Rightarrow> int \<Rightarrow> string \<Rightarrow> string \<Rightarrow> string \<Rightarrow> string \<Rightarrow> string \<Rightarrow> store
     \<Rightarrow> (thrown + Team) \<times> store" where
  "rtdb_registerTeam F random now name p1 p2 mail phone db =
     (case ensureAuth (f_signIn F) of
        Inl error \<Rightarrow> (Inl (rethrow error), db)
      | Inr _ \<Rightarrow>
          (let isNameTaken = rtdb_isTeamNameTaken (f_signIn F) (f_name F) db name;
               isEmailAlreadyUsed = rtdb_isEmailTaken (f_signIn F) (f_email F) db mail
           in if isNameTaken then (Inl (rethrow (Error (name_taken_message name))), db)
              else if isEmailAlreadyUsed then (Inl (rethrow (Error email_taken_message)), db)
              else
                (let u = generateUID random;
                     n = rtdb_getNextTeamNumber (f_signIn F) (f_count F) db;
                     teamData = \<lparr>docId = None, teamNumber = n, teamName = name, uid = u,
                                  player1 = p1, player2 = p2, email = mail, phoneNumber = phone,
                                  score = 0, createdAt = now\<rparr>
                 in (case rtdb_set (f_write F) u teamData db of
                       Inl error \<Rightarrow> (Inl (rethrow error), db)
                     | Inr db' \<Rightarrow> (Inr teamData, db')))))"



definition rtdb_getAllTeams :: "fault \<Rightarrow> fault \<Rightarrow> store \<Rightarrow> Team list" where
  "rtdb_getAllTeams f_auth f db =
     (case ensureAuth f_auth of
        Inl error \<Rightarrow> []
      | Inr _ \<Rightarrow>
          (case rtdb_get_root f db of
             Inl error \<Rightarrow> []
           | Inr allData \<Rightarrow>
               if allData = [] then []
               else array_sort compareTeams (map snd (filter valid_node allData))))"

section \<open>HTTP handlers\<close>

text \<open>
  A value of a parsed JSON request body. \<open>JUndefined\<close> is an absent field, \<open>JObject\<close> any
  object or array. Numbers are the integers: a JSON body cannot carry \<^verbatim>\<open>NaN\<close>, and
  fractional numbers are left out.
\<close>

datatype json = JUndefined | JNull | JBool bool | JNum int | JStr string | JObject

text \<open>\<^verbatim>\<open>!v\<close>\<close>

definition falsy :: "json \<Rightarrow> bool" where
  "falsy v =
     (case v of JUndefined \<Rightarrow> True | JNull \<Rightarrow> True | JBool b \<Rightarrow> \<not> b
      | JNum n \<Rightarrow> n = 0 | JStr s \<Rightarrow> s = [] | JObject \<Rightarrow> False)"

text \<open>\<^verbatim>\<open>typeof v === 'string'\<close>, \<^verbatim>\<open>typeof v !== 'string'\<close>, and the string itself.\<close>

definition is_string :: "json \<Rightarrow> bool" where
  "is_string v = (case v of JStr s \<Rightarrow> True | _ \<Rightarrow> False)"

definition not_string :: "json \<Rightarrow> bool" where
  "not_string v = (\<not> is_string v)"

definition str :: "json \<Rightarrow> string" where
  "str v = (case v of JStr s \<Rightarrow> s | _ \<Rightarrow> [])"

text \<open>
  The characters \<^verbatim>\<open>\s\<close> matches and \<^verbatim>\<open>trim()\<close> removes, among the code units below 256:
  tab, line feed, vertical tab, form feed, carriage return, space, no-break space.
\<close>

definition white_space :: "char \<Rightarrow> bool" where
  "white_space c = (of_char c \<in> {9, 10, 11, 12, 13, 32, 160 :: nat})"

definition trim :: "string \<Rightarrow> string" where
  "trim s = rev (dropWhile white_space (rev (dropWhile white_space s)))"

text \<open>
  \<^verbatim>\<open>/^[^\s@]+@[^\s@]+\.[^\s@]+$/.test(s)\<close>: a non-empty run without white space or
  \<^verbatim>\<open>@\<close>, then \<^verbatim>\<open>@\<close>, then to the end of the string a run of such characters with a dot
  that is neither its first nor its last character.
\<close>

definition email_char :: "char \<Rightarrow> bool" where
  "email_char c = (\<not> white_space c \<and> c \<noteq> CHR ''@'')"

definition emailRegex_test :: "string \<Rightarrow> bool" where
  "emailRegex_test s =
     (let local = takeWhile email_char s; rest = dropWhile email_char s
      in local \<noteq> [] \<and>
         (case rest of
            [] \<Rightarrow> False
          | c # domain \<Rightarrow>
              c = CHR ''@'' \<and> list_all email_char domain \<and>
              list_ex (\<lambda>i. domain ! i = CHR ''.'') [1..<length domain - 1]))"

text \<open>
  \<^verbatim>\<open>/^[\+]?[\d\s\-\(\)]{10,15}$/.test(s)\<close>: an optional plus sign, then 10 to 15 digits,
  white-space characters, hyphens or parentheses, to the end of the string.
\<close>

definition phone_char :: "char \<Rightarrow> bool" where
  "phone_char c =
     ((CHR ''0'' \<le> c \<and> c \<le> CHR ''9'') \<or> white_space c \<or> c = CHR ''-'' \<or> c = CHR ''('' \<or> c = CHR '')'')"

definition phoneRegex_test :: "string \<Rightarrow> bool" where
  "phoneRegex_test s =
     (let digits = (case s of [] \<Rightarrow> s | c # cs \<Rightarrow> if c = CHR ''+'' then cs else s)
      in 10 \<le> length digits \<and> length digits \<le> 15 \<and> list_all phone_char digits)"

text \<open>\<^verbatim>\<open>s.includes(sub)\<close>\<close>

definition str_includes :: "string \<Rightarrow> string \<Rightarrow> bool" where
  "str_includes s sub = list_ex (\<lambda>i. take (length sub) (drop i s) = sub) [0..<Suc (length s)]"

text \<open>A number in a template string.\<close>

fun decimal :: "nat \<Rightarrow> string" where
  "decimal n = (if n < 10 then [char_of (48 + n)] else decimal (n div 10) @ [char_of (48 + n mod 10)])"

definition number_toString :: "int \<Rightarrow> string" where
  "number_toString n = (if n < 0 then CHR ''-'' # decimal (nat (- n)) else decimal (nat n))"

text \<open>
  A response: the status and the JSON body, which is \<^verbatim>\<open>{success: false, error}\<close>,
  \<^verbatim>\<open>{success: true, data}\<close> with the eight fields team number, team name, uid, player 1,
  player 2, email, phone number and score, or \<^verbatim>\<open>{success: true, message}\<close>.
\<close>

datatype response_body =
    ErrorResponse string
  | TeamResponse int string string string string string string int
  | MessageResponse string

type_synonym response = "nat \<times> response_body"

text \<open>\<^verbatim>\<open>error instanceof Error ? error.message : fallback\<close>\<close>

definition message_or :: "thrown \<Rightarrow> string \<Rightarrow> string" where
  "message_or e fallback = (case e of Error m \<Rightarrow> m | NonError \<Rightarrow> fallback)"

record register_body =
  body_teamName :: json
  body_player1 :: json
  body_player2 :: json
  body_email :: json
  body_phoneNumber :: json

type_synonym register_fn =
  "string \<Rightarrow> string \<Rightarrow> string \<Rightarrow> string \<Rightarrow> string \<Rightarrow> store \<Rightarrow> (thrown + Team) \<times> store"

text \<open>
  The handler of \<^verbatim>\<open>POST /api/register\<close>. It imports \<^verbatim>\<open>registerTeam\<close> from
  \<^verbatim>\<open>@/lib/firestore\<close>, of which the repository has several versions, so the function is
  an argument.
\<close>

definition register_handler :: "register_fn \<Rightarrow> string \<Rightarrow> register_body \<Rightarrow> store \<Rightarrow> response \<times> store" where
  "register_handler register method body st =
     (if method \<noteq> ''POST'' then ((405, ErrorResponse ''Method not allowed. Use POST.''), st)
      else if falsy (body_teamName body) \<or> falsy (body_player1 body) \<or> falsy (body_player2 body)
              \<or> falsy (body_email body) \<or> falsy (body_phoneNumber body)
      then ((400, ErrorResponse
              ''Missing required fields. Please provide teamName, player1, player2, email, and phoneNumber.''), st)
      else if not_string (body_teamName body) \<or> not_string (body_player1 body)
              \<or> not_string (body_player2 body) \<or> not_string (body_email body)
              \<or> not_string (body_phoneNumber body)
      then ((400, ErrorResponse ''Invalid field types. All fields must be strings.''), st)
      else if \<not> emailRegex_test (trim (str (body_email body)))
      then ((400, ErrorResponse ''Invalid email format.''), st)
      else if \<not> phoneRegex_test (trim (str (body_phoneNumber body)))
      then ((400, ErrorResponse ''Invalid phone number format.''), st)
      else
        (case register (trim (str (body_teamName body))) (trim (str (body_player1 body)))
                (trim (str (body_player2 body))) (trim (str (body_email body)))
                (trim (str (body_phoneNumber body))) st of
           (Inr team, st') \<Rightarrow>
             ((201, TeamResponse (teamNumber team) (teamName team) (uid team) (player1 team)
                      (player2 team) (email team) (phoneNumber team) (score team)), st')
         | (Inl error, st') \<Rightarrow>
             ((500, ErrorResponse (message_or error ''Internal server error'')), st')))"

text \<open>The handler of \<^verbatim>\<open>POST /api/update-score\<close>, over any version of \<^verbatim>\<open>updateScore\<close>.\<close>

type_synonym update_fn = "string \<Rightarrow> int \<Rightarrow> store \<Rightarrow> (thrown + bool) \<times> store"

definition update_score_handler :: "update_fn \<Rightarrow> string \<Rightarrow> json \<Rightarrow> json \<Rightarrow> store \<Rightarrow> response \<times> store" where
  "update_score_handler update method u scoreIncrement st =
     (if method \<noteq> ''POST'' then ((405, ErrorResponse ''Method not allowed. Use POST.''), st)
      else if falsy u then ((400, ErrorResponse ''Missing required field: uid''), st)
      else if scoreIncrement = JUndefined \<or> scoreIncrement = JNull
      then ((400, ErrorResponse ''Missing required field: scoreIncrement''), st)
      else if not_string u
      then ((400, ErrorResponse ''Invalid field type: uid must be a string''), st)
      else
        (case scoreIncrement of
           JNum n \<Rightarrow>
             if n < - 1000000 \<or> n > 1000000
             then ((400, ErrorResponse ''Score increment must be between -1,000,000 and 1,000,000''), st)
             else
               (case update (trim (str u)) n st of
                  (Inr ok, st') \<Rightarrow>
                    ((200, MessageResponse (''Score updated successfully. Added '' @ number_toString n
                             @ '' points to team '' @ str u @ ''.'')), st')
                | (Inl error, st') \<Rightarrow>
                    if (case error of Error m \<Rightarrow> str_includes m ''Team not found'' | NonError \<Rightarrow> False)
                    then ((404, ErrorResponse ''Team not found with the provided UID''), st')
                    else ((500, ErrorResponse (message_or error ''Internal server error'')), st'))
         | _ \<Rightarrow> ((400, ErrorResponse ''Invalid field type: scoreIncrement must be a number''), st)))"

text \<open>
  \<^verbatim>\<open>handleSubmit\<close> of the registration page: the form's five strings, and the error text
  shown or the registered team.
\<close>

definition handleSubmit ::
  "register_fn \<Rightarrow> string \<Rightarrow> string \<Rightarrow> string \<Rightarrow> string \<Rightarrow> string \<Rightarrow> store \<Rightarrow> (string + Team) \<times> store" where
  "handleSubmit register name p1 p2 mail phone st =
     (if trim name = [] \<or> trim p1 = [] \<or> trim p2 = [] \<or> trim mail = [] \<or> trim phone = []
      then (Inl ''Please fill in all fields'', st)
      else if \<not> emailRegex_test mail then (Inl ''Please enter a valid email address'', st)
      else if \<not> phoneRegex_test (trim phone) then (Inl ''Please enter a valid phone number'', st)
      else if length (trim name) < 2 \<or> length (trim name) > 30
      then (Inl ''Team name must be between 2 and 30 characters'', st)
      else
        (case register (trim name) (trim p1) (trim p2) (trim mail) (trim phone) st of
           (Inr team, st') \<Rightarrow> (Inr team, st')
         | (Inl err, st') \<Rightarrow> (Inl (message_or err ''An error occurred''), st')))"

section \<open>Sequences of registrations\<close>

text \<open>
  One registration request: what \<^verbatim>\<open>Math.random()\<close> and the clock give during the call,
  and the five strings. A sequence of requests is served in order by a Realtime Database
  that answers every call.
\<close>

record request =
  q_random :: "nat \<Rightarrow> real"
  q_now :: int
  q_teamName :: string
  q_player1 :: string
  q_player2 :: string
  q_email :: string
  q_phoneNumber :: string

definition rtdb_register :: "request \<Rightarrow> store \<Rightarrow> (thrown + Team) \<times> store" where
  "rtdb_register q db =
     rtdb_registerTeam no_faults (q_random q) (q_now q) (q_teamName q) (q_player1 q) (q_player2 q)
       (q_email q) (q_phoneNumber q) db"

fun register_all ::
  "(request \<Rightarrow> store \<Rightarrow> (thrown + Team) \<times> store) \<Rightarrow> request list \<Rightarrow> store
     \<Rightarrow> (thrown + Team) list \<times> store" where
  "register_all register [] st = ([], st)"
| "register_all register (q # qs) st =
     (let (r, st') = register q st; (rs, st'') = register_all register qs st'
      in (r # rs, st''))"

text \<open>The teams of the successful calls, in order.\<close>

definition successes :: "(thrown + Team) list \<Rightarrow> Team list" where
  "successes rs = concat (map (\<lambda>r. case r of Inr t \<Rightarrow> [t] | Inl e \<Rightarrow> []) rs)"

section \<open>Properties stated by the specification\<close>

text \<open>
  The scoreboard order in the specification's words: score descending, ties broken by
  team number ascending.
\<close>

definition score_desc_teamNumber_asc :: "Team \<Rightarrow> Team \<Rightarrow> bool" where
  "score_desc_teamNumber_asc a b =
     (score b < score a \<or> (score a = score b \<and> teamNumber a \<le> teamNumber b))"

text \<open>The alphabet of an identifier in the specification's words: A-Z, a-z, 0-9.\<close>

definition alphanumeric :: "char \<Rightarrow> bool" where
  "alphanumeric c =
     ((CHR ''A'' \<le> c \<and> c \<le> CHR ''Z'') \<or> (CHR ''a'' \<le> c \<and> c \<le> CHR ''z'')
      \<or> (CHR ''0'' \<le> c \<and> c \<le> CHR ''9''))"

text \<open>In the Firestore variant keyed by team name every document's key is its team name.\<close>

definition keyed_by_teamName :: "store \<Rightarrow> bool" where
  "keyed_by_teamName st = list_all (\<lambda>kv. teamName (snd kv) = fst kv) st"

text \<open>
  The stores the Firestore variant keyed by team name produces: unique keys in ascending
  order, each the team name of its document.
\<close>

definition store_ok :: "store \<Rightarrow> bool" where
  "store_ok st \<longleftrightarrow> distinct (map fst st) \<and> sorted (map fst st) \<and> keyed_by_teamName st"



text \<open>A request body that passes the checks of the registration handler.\<close>

definition passes_validation :: "register_body \<Rightarrow> bool" where
  "passes_validation body =
     (\<not> falsy (body_teamName body) \<and> \<not> falsy (body_player1 body) \<and> \<not> falsy (body_player2 body)
      \<and> \<not> falsy (body_email body) \<and> \<not> falsy (body_phoneNumber body)
      \<and> is_string (body_teamName body) \<and> is_string (body_player1 body)
      \<and> is_string (body_player2 body) \<and> is_string (body_email body)
      \<and> is_string (body_phoneNumber body)
      \<and> emailRegex_test (trim (str (body_email body)))
      \<and> phoneRegex_test (trim (str (body_phoneNumber body))))"

section \<open>Example data\<close>

definition example_team :: "int \<Rightarrow> string \<Rightarrow> string \<Rightarrow> int \<Rightarrow> Team" where
  "example_team n name u s =
     \<lparr>docId = None, teamNumber = n, teamName = name, uid = u, player1 = ''Ann'',
      player2 = ''Bob'', email = name @ ''@example.com'', phoneNumber = ''+1234567890'',
      score = s, createdAt = 0\<rparr>"

definition random_const :: "real \<Rightarrow> nat \<Rightarrow> real" where
  "random_const r i = r"

definition example_request :: "real \<Rightarrow> string \<Rightarrow> request" where
  "example_request r name =
     \<lparr>q_random = random_const r, q_now = 0, q_teamName = name, q_player1 = ''Ann'',
      q_player2 = ''Bob'', q_email = name @ ''@example.com'', q_phoneNumber = ''+1234567890''\<rparr>"

definition example_body :: "string \<Rightarrow> register_body" where
  "example_body name =
     \<lparr>body_teamName = JStr name, body_player1 = JStr ''Ann'', body_player2 = JStr ''Bob'',
      body_email = JStr (name @ ''@example.com''), body_phoneNumber = JStr ''+1234567890''\<rparr>"

text \<open>A request for a new team name with an email address that is already stored.\<close>

definition duplicate_email_body :: register_body where
  "duplicate_email_body = (example_body ''Delta'')\<lparr>body_email := JStr ''Alpha@example.com''\<rparr>"

text \<open>A team name of 31 characters.\<close>

definition long_name :: string where
  "long_name = ''xxxxxxxxxxxxxxxxxxxxxxxxxxxxxxx''"

text \<open>A store whose count query is rejected while every other call is answered.\<close>

definition count_fault :: faults where
  "count_fault = no_faults\<lparr>f_count := Some (Error ''unavailable'')\<rparr>"

text \<open>Likewise for the name lookup, the email query and the write.\<close>

definition name_fault :: faults where
  "name_fault = no_faults\<lparr>f_name := Some (Error ''unavailable'')\<rparr>"

definition email_fault :: faults where
  "email_fault = no_faults\<lparr>f_email := Some (Error ''unavailable'')\<rparr>"

definition write_fault :: faults where
  "write_fault = no_faults\<lparr>f_write := Some (Error ''unavailable'')\<rparr>"

text \<open>Two teams that drew the same identifier, and a third.\<close>

definition collision_store :: store where
  "collision_store =
     [(''Alpha'', example_team 1 ''Alpha'' ''qK234'' 10),
      (''Beta'', example_team 2 ''Beta'' ''qK234'' 20),
      (''Gamma'', example_team 3 ''Gamma'' ''zz999'' 30)]"

text \<open>The specification's scoreboard example: scores 50, 50, 10 with team numbers 2, 1, 3.\<close>

definition scoreboard_example :: store where
  "scoreboard_example =
     [(''aaaaa'', example_team 2 ''Alpha'' ''aaaaa'' 50),
      (''bbbbb'', example_team 1 ''Beta'' ''bbbbb'' 50),
      (''ccccc'', example_team 3 ''Gamma'' ''ccccc'' 10)]"

text \<open>The same documents in an order by score descending, then team number ascending.\<close>

definition ordered_answer :: store where
  "ordered_answer =
     [(''bbbbb'', example_team 1 ''Beta'' ''bbbbb'' 50),
      (''aaaaa'', example_team 2 ''Alpha'' ''aaaaa'' 50),
      (''ccccc'', example_team 3 ''Gamma'' ''ccccc'' 10)]"


text \<open>
  A request whose team name is three spaces, and the Realtime Database after that request
  was served from the empty one.
\<close>

definition blank_name_body :: register_body where
  "blank_name_body = (example_body ''Zed'')\<lparr>body_teamName := JStr ''   ''\<rparr>"

definition blank_name_store :: store where
  "blank_name_store = [(''AAAAA'', (example_team 1 ''Zed'' ''AAAAA'' 0)\<lparr>teamName := []\<rparr>)]"

section \<open>Facts about the store\<close>

lemma length_modify: "length (modify k f st) = length st"
  by (simp add: modify_def)

lemma map_fst_modify: "map fst (modify k f st) = map fst st"
  by (induction st) (auto simp: modify_def)


lemma find_filter: "find P xs = Some x \<Longrightarrow> \<exists>rest. filter P xs = x # rest"
  by (induction xs) (auto split: if_splits)



lemma updateScore_step:
  assumes "find (\<lambda>kv. uid (snd kv) = u) st = Some (k, t)"
  shows "updateScore None None u n st = (Inr True, modify k (\<lambda>t. t\<lparr>score := score t + n\<rparr>) st)"
proof -
  obtain rest where "filter (\<lambda>kv. uid (snd kv) = u) st = (k, t) # rest"
    using find_filter[OF assms] by blast
  then show ?thesis
    by (simp add: updateScore_def getDocs_where_def updateDoc_increment_def)
qed






lemma find_first_match:
  "i < length xs \<Longrightarrow> P (xs ! i) \<Longrightarrow> \<forall>j<i. \<not> P (xs ! j) \<Longrightarrow> find P xs = Some (xs ! i)"
proof (induction xs arbitrary: i)
  case Nil
  then show ?case by simp
next
  case (Cons x xs)
  show ?case
  proof (cases i)
    case 0
    with Cons.prems show ?thesis by simp
  next
    case (Suc k)
    with Cons.prems have nx: "\<not> P x" by auto
    have "\<forall>j<k. \<not> P (xs ! j)"
    proof (intro allI impI)
      fix j assume "j < k"
      then have "Suc j < i" using Suc by simp
      with Cons.prems(3) have "\<not> P ((x # xs) ! Suc j)" by blast
      then show "\<not> P (xs ! j)" by simp
    qed
    moreover have "k < length xs" "P (xs ! k)" using Cons.prems Suc by auto
    ultimately have "find P xs = Some (xs ! k)"
      using Cons.IH[of k] by blast
    with nx Suc show ?thesis by simp
  qed
qed

lemma modify_nth:
  assumes d: "distinct (map fst st)" and i: "i < length st"
  shows "modify (fst (st ! i)) f st = st[i := (fst (st ! i), f (snd (st ! i)))]"
proof (rule nth_equalityI)
  show "length (modify (fst (st ! i)) f st) = length (st[i := (fst (st ! i), f (snd (st ! i)))])"
    by (simp add: modify_def)
next
  fix j
  assume j: "j < length (modify (fst (st ! i)) f st)"
  then have jl: "j < length st" by (simp add: modify_def)
  have "fst (st ! j) = fst (st ! i) \<longleftrightarrow> j = i"
    using d i jl by (metis distinct_conv_nth length_map nth_map)
  then show "modify (fst (st ! i)) f st ! j = st[i := (fst (st ! i), f (snd (st ! i)))] ! j"
    using jl i by (auto simp: modify_def)
qed


section \<open>Score updates\<close>




text \<open>
  Claim C10. When several documents carry the same \<^verbatim>\<open>uid\<close>, \<^verbatim>\<open>updateScore\<close> of the
  Firestore variants adds the increment to the first of them in the query's order, at
  index \<open>i\<close>, and every other document, the later ones with the same \<^verbatim>\<open>uid\<close> included,
  stays as it was.
\<close>

theorem updateScore_first_match_only:
  assumes "distinct (map fst st)" and "i < length st" and "uid (snd (st ! i)) = u"
    and "\<forall>j<i. uid (snd (st ! j)) \<noteq> u"
  shows "updateScore None None u n st =
           (Inr True, st[i := (fst (st ! i), (snd (st ! i))\<lparr>score := score (snd (st ! i)) + n\<rparr>)])
       \<and> length (snd (updateScore None None u n st)) = length st
       \<and> (\<forall>j<length st. j \<noteq> i \<longrightarrow> snd (updateScore None None u n st) ! j = st ! j)"
proof -
  have "find (\<lambda>kv. uid (snd kv) = u) st = Some (fst (st ! i), snd (st ! i))"
    using find_first_match[of i st "\<lambda>kv. uid (snd kv) = u"] assms by simp
  then have "updateScore None None u n st =
           (Inr True, modify (fst (st ! i)) (\<lambda>t. t\<lparr>score := score t + n\<rparr>) st)"
    by (rule updateScore_step)
  then have "updateScore None None u n st =
           (Inr True, st[i := (fst (st ! i), (snd (st ! i))\<lparr>score := score (snd (st ! i)) + n\<rparr>)])"
    by (simp add: modify_nth[OF assms(1,2)])
  then show ?thesis by simp
qed

theorem updateScore_first_match_only_witness:
  "updateScore None None ''qK234'' 5 collision_store =
     (Inr True,
      [(''Alpha'', example_team 1 ''Alpha'' ''qK234'' 15),
       (''Beta'', example_team 2 ''Beta'' ''qK234'' 20),
       (''Gamma'', example_team 3 ''Gamma'' ''zz999'' 30)])"
proof -
  have "updateScore None None ''qK234'' 5 collision_store =
      (Inr True, collision_store[0 := (fst (collision_store ! 0),
         (snd (collision_store ! 0))\<lparr>score := score (snd (collision_store ! 0)) + 5\<rparr>)])
       \<and> length (snd (updateScore None None ''qK234'' 5 collision_store)) = length collision_store
       \<and> (\<forall>j<length collision_store. j \<noteq> 0 \<longrightarrow>
            snd (updateScore None None ''qK234'' 5 collision_store) ! j = collision_store ! j)"
    by (rule updateScore_first_match_only) (simp_all add: collision_store_def example_team_def)
  then show ?thesis by (simp add: collision_store_def example_team_def)
qed

text \<open>
  Claim C9. A \<^verbatim>\<open>POST /api/update-score\<close> whose \<^verbatim>\<open>scoreIncrement\<close> is a number below
  -1,000,000 or above 1,000,000 is answered with status 400 and an error body, whatever the
  \<^verbatim>\<open>uid\<close> field holds, and the store is left as it was.
\<close>

theorem update_score_out_of_range_rejected:
  assumes "n < - 1000000 \<or> 1000000 < n"
  shows "fst (fst (update_score_handler update ''POST'' u (JNum n) st)) = 400
       \<and> (\<exists>msg. snd (fst (update_score_handler update ''POST'' u (JNum n) st)) = ErrorResponse msg)
       \<and> snd (update_score_handler update ''POST'' u (JNum n) st) = st"
  using assms by (auto simp: update_score_handler_def)

theorem update_score_out_of_range_rejected_witness:
  "update_score_handler (updateScore None None) ''POST'' (JStr ''qK234'') (JNum 2000000) collision_store
     = ((400, ErrorResponse ''Score increment must be between -1,000,000 and 1,000,000''),
        collision_store)"
proof -
  have "(2000000::int) < - 1000000 \<or> 1000000 < (2000000::int)" by simp
  from update_score_out_of_range_rejected[OF this, of "updateScore None None" "JStr ''qK234''" collision_store]
  show ?thesis
    by (simp add: update_score_handler_def falsy_def not_string_def is_string_def)
qed

section \<open>Registration\<close>

lemma has_key_iff: "has_key st k \<longleftrightarrow> k \<in> fst ` set st"
  by (simp add: has_key_def map_of_eq_None_iff)

lemma map_of_insort_key:
  "map_of (insort_key fst (k, v) st) k' = (if k' = k then Some v else map_of st k')" if "k \<notin> fst ` set st"
  using that by (induction st) auto

lemma map_of_replace:
  "map_of (map (\<lambda>kv. if fst kv = k then (k, v) else kv) st) k'
     = (if k' = k then (if k \<in> fst ` set st then Some v else None) else map_of st k')"
proof (induction st)
  case Nil
  then show ?case by simp
next
  case (Cons a st)
  then show ?case by (cases a) (auto simp: image_iff, force)
qed

lemma map_of_put: "map_of (put k v st) k' = (if k' = k then Some v else map_of st k')"
  by (simp add: put_def map_of_insort_key map_of_replace has_key_iff)

lemma length_put_new: "\<not> has_key st k \<Longrightarrow> length (put k v st) = Suc (length st)"
  by (simp add: put_def)

lemma set_put_new: "\<not> has_key st k \<Longrightarrow> set (put k v st) = insert (k, v) (set st)"
  by (simp add: put_def set_insort_key)

lemma map_fst_replace: "map fst (map (\<lambda>kv. if fst kv = k then (k, v) else kv) st) = map fst st"
  by (induction st) auto

lemma distinct_insort_key_fst:
  "k \<notin> fst ` set st \<Longrightarrow> distinct (map fst st) \<Longrightarrow> distinct (map fst (insort_key fst (k, v) st))"
  by (induction st) (auto simp: set_insort_key)

lemma distinct_put: "distinct (map fst st) \<Longrightarrow> distinct (map fst (put k v st))"
proof (cases "has_key st k")
  case True
  assume "distinct (map fst st)"
  then have "distinct (map fst (map (\<lambda>kv. if fst kv = k then (k, v) else kv) st))"
    by (simp only: map_fst_replace)
  then show ?thesis using True by (simp only: put_def if_True)
next
  case False
  assume "distinct (map fst st)"
  then have "distinct (map fst (insort_key fst (k, v) st))"
    using False by (intro distinct_insort_key_fst) (simp_all add: has_key_iff)
  then show ?thesis using False by (simp only: put_def if_False)
qed

text \<open>Writing a document keeps the keys unique and in ascending order.\<close>

lemma sorted_put: "sorted (map fst st) \<Longrightarrow> sorted (map fst (put k v st))"
proof (cases "has_key st k")
  case True
  assume "sorted (map fst st)"
  then have "sorted (map fst (map (\<lambda>kv. if fst kv = k then (k, v) else kv) st))"
    by (simp only: map_fst_replace)
  then show ?thesis using True by (simp only: put_def if_True)
next
  case False
  assume "sorted (map fst st)"
  then have "sorted (map fst (insort_key fst (k, v) st))"
    by (rule sorted_insort_key[THEN iffD2])
  then show ?thesis using False by (simp only: put_def if_False)
qed

lemma charAt_random:
  assumes "0 \<le> r" and "r < 1"
  shows "\<exists>c\<in>set chars. charAt chars \<lfloor>r * real (length chars)\<rfloor> = [c]"
proof -
  have len: "length chars = 62" by (simp add: chars_def)
  have "0 \<le> r * 62" using assms by simp
  then have lo: "0 \<le> \<lfloor>r * 62\<rfloor>" by simp
  have "r * 62 < 62" using assms by simp
  then have hi: "\<lfloor>r * 62\<rfloor> < 62" by (simp add: floor_less_iff)
  have "nat \<lfloor>r * 62\<rfloor> < 62" using lo hi by linarith
  then have "nat \<lfloor>r * 62\<rfloor> < length chars" by (simp only: len)
  then have mem: "chars ! nat \<lfloor>r * 62\<rfloor> \<in> set chars" by (rule nth_mem)
  have "charAt chars \<lfloor>r * real (length chars)\<rfloor> = [chars ! nat \<lfloor>r * 62\<rfloor>]"
    using lo hi by (simp add: charAt_def len)
  with mem show ?thesis by blast
qed

lemma chars_alphanumeric: "list_all alphanumeric chars"
  by (simp add: chars_def alphanumeric_def)

lemma generateUID_shape:
  assumes "\<forall>i<5. 0 \<le> random i \<and> random i < 1"
  shows "length (generateUID random) = 5 \<and> set (generateUID random) \<subseteq> set chars"
proof -
  have five: "[0..<5] = [0, 1, 2, 3, 4::nat]" by (simp add: upt_rec)
  obtain c0 where c0: "c0 \<in> set chars" "charAt chars \<lfloor>random 0 * real (length chars)\<rfloor> = [c0]"
    using charAt_random[of "random 0"] assms by auto
  obtain c1 where c1: "c1 \<in> set chars" "charAt chars \<lfloor>random (Suc 0) * real (length chars)\<rfloor> = [c1]"
    using charAt_random[of "random (Suc 0)"] assms by auto
  obtain c2 where c2: "c2 \<in> set chars" "charAt chars \<lfloor>random 2 * real (length chars)\<rfloor> = [c2]"
    using charAt_random[of "random 2"] assms by auto
  obtain c3 where c3: "c3 \<in> set chars" "charAt chars \<lfloor>random 3 * real (length chars)\<rfloor> = [c3]"
    using charAt_random[of "random 3"] assms by auto
  obtain c4 where c4: "c4 \<in> set chars" "charAt chars \<lfloor>random 4 * real (length chars)\<rfloor> = [c4]"
    using charAt_random[of "random 4"] assms by auto
  have "generateUID random = [c0, c1, c2, c3, c4]"
    by (simp add: generateUID_def five c0 c1 c2 c3 c4)
  then show ?thesis using c0 c1 c2 c3 c4 by simp
qed

lemma keyed_no_name_no_key:
  assumes "keyed_by_teamName st" and "list_all (\<lambda>kv. teamName (snd kv) \<noteq> name) st"
  shows "\<not> has_key st name"
proof
  assume "has_key st name"
  then obtain t where "(name, t) \<in> set st" by (auto simp: has_key_iff)
  with assms show False by (auto simp: keyed_by_teamName_def list_all_iff)
qed

lemma generateUID_zero: "generateUID (random_const 0) = ''AAAAA''"
  by (simp add: generateUID_def random_const_def chars_def charAt_def upt_rec)

lemma generateUID_half: "generateUID (random_const (1/2)) = ''fffff''"
  by (simp add: generateUID_def random_const_def chars_def charAt_def upt_rec)

text \<open>The three ways \<^verbatim>\<open>registerTeam\<close> ends.\<close>

lemma registerTeam_name_taken:
  "isTeamNameTaken (f_name F) st name \<Longrightarrow>
   registerTeam F random now name p1 p2 mail phone st = (Inl (Error (name_taken_message name)), st)"
  by (simp add: registerTeam_def rethrow_def)

lemma registerTeam_email_taken:
  "\<not> isTeamNameTaken (f_name F) st name \<Longrightarrow> isEmailTaken (f_email F) st mail \<Longrightarrow>
   registerTeam F random now name p1 p2 mail phone st = (Inl (Error email_taken_message), st)"
  by (simp add: registerTeam_def rethrow_def)

lemma registerTeam_write:
  "\<not> isTeamNameTaken (f_name F) st name \<Longrightarrow> \<not> isEmailTaken (f_email F) st mail \<Longrightarrow>
   registerTeam F random now name p1 p2 mail phone st =
     (case f_write F of
        Some e \<Rightarrow> (Inl (rethrow e), st)
      | None \<Rightarrow>
          (Inr \<lparr>docId = Some name, teamNumber = getNextTeamNumber (f_count F) st, teamName = name,
                uid = generateUID random, player1 = p1, player2 = p2, email = mail,
                phoneNumber = phone, score = 0, createdAt = now\<rparr>,
           put name \<lparr>docId = None, teamNumber = getNextTeamNumber (f_count F) st, teamName = name,
                uid = generateUID random, player1 = p1, player2 = p2, email = mail,
                phoneNumber = phone, score = 0, createdAt = now\<rparr> st))"
  by (simp add: registerTeam_def Let_def setDoc_def split: option.splits)

lemma no_faults_simps:
  "f_signIn no_faults = None" "f_name no_faults = None" "f_email no_faults = None"
  "f_count no_faults = None" "f_write no_faults = None"
  by (simp_all add: no_faults_def)

lemmas registerTeam_defs =
  registerTeam_def isTeamNameTaken_def isEmailTaken_def getDoc_def getDocs_where_def
  getNextTeamNumber_def getDocs_def setDoc_def put_def has_key_def rethrow_def
  name_taken_message_def email_taken_message_def Let_def

text \<open>
  Claim C2. In the Firestore variant keyed by team name, when no stored record has the team
  name or the email of the call and the store answers the two lookups and the write, the
  registration succeeds; the record returned, which is the record stored under the team
  name, has score 0 and an identifier of exactly 5 characters, each of the 62 characters
  A-Z, a-z, 0-9. \<^verbatim>\<open>Math.random()\<close> returns numbers in \<open>[0, 1)\<close>.
\<close>

theorem registerTeam_new_record:
  assumes "\<forall>i<5. 0 \<le> random i \<and> random i < 1"
    and "f_name F = None" and "f_email F = None" and "f_write F = None"
    and "keyed_by_teamName st"
    and "list_all (\<lambda>kv. teamName (snd kv) \<noteq> name \<and> email (snd kv) \<noteq> mail) st"
  shows "\<exists>team st'. registerTeam F random now name p1 p2 mail phone st = (Inr team, st')
           \<and> map_of st' name = Some (team\<lparr>docId := None\<rparr>)
           \<and> teamName team = name \<and> email team = mail
           \<and> score team = 0
           \<and> length (uid team) = 5 \<and> list_all alphanumeric (uid team)
           \<and> set (uid team) \<subseteq> set chars \<and> length chars = 62"
proof -
  have nk: "\<not> has_key st name"
    using assms(5,6) by (intro keyed_no_name_no_key) (auto simp: list_all_iff)
  then have nt: "\<not> isTeamNameTaken (f_name F) st name"
    by (simp add: isTeamNameTaken_def getDoc_def assms(2) has_key_def)
  have "filter (\<lambda>kv. email (snd kv) = mail) st = []"
    using assms(6) by (auto simp: list_all_iff filter_empty_conv)
  then have ne: "\<not> isEmailTaken (f_email F) st mail"
    by (simp add: isEmailTaken_def getDocs_where_def assms(3))
  have shape: "length (generateUID random) = 5" "set (generateUID random) \<subseteq> set chars"
    using generateUID_shape[OF assms(1)] by auto
  have "list_all alphanumeric (generateUID random)"
    using shape(2) chars_alphanumeric by (auto simp: list_all_iff)
  moreover have "length chars = 62" by (simp add: chars_def)
  ultimately show ?thesis
    using nt ne shape
    by (simp add: registerTeam_def Let_def setDoc_def assms(4) map_of_put)
qed

theorem registerTeam_new_record_witness:
  "registerTeam no_faults (random_const (1/2)) 0 ''Delta'' ''Ann'' ''Bob'' ''Delta@example.com''
      ''+1234567890'' collision_store
   = (Inr ((example_team 4 ''Delta'' ''fffff'' 0)\<lparr>docId := Some ''Delta''\<rparr>),
      [(''Alpha'', example_team 1 ''Alpha'' ''qK234'' 10),
       (''Beta'', example_team 2 ''Beta'' ''qK234'' 20),
       (''Delta'', example_team 4 ''Delta'' ''fffff'' 0),
       (''Gamma'', example_team 3 ''Gamma'' ''zz999'' 30)])"
proof -
  have r: "\<forall>i<5. 0 \<le> random_const (1/2) i \<and> random_const (1/2) i < 1"
    by (simp add: random_const_def)
  have f: "f_name no_faults = None" "f_email no_faults = None" "f_write no_faults = None"
    by (simp_all add: no_faults_def)
  have k: "keyed_by_teamName collision_store"
    by (simp add: keyed_by_teamName_def collision_store_def example_team_def)
  have n: "list_all (\<lambda>kv. teamName (snd kv) \<noteq> ''Delta'' \<and> email (snd kv) \<noteq> ''Delta@example.com'')
             collision_store"
    by (simp add: collision_store_def example_team_def)
  from registerTeam_new_record[OF r f k n, of 0 "''Ann''" "''Bob''" "''+1234567890''"]
  show ?thesis
    by (simp add: registerTeam_defs no_faults_def collision_store_def example_team_def
        generateUID_half)
qed

text \<open>
  Claim C3. In the Firestore variant keyed by team name, when the store holds a record with
  the team name of the call (compared as strings, character by character), the registration
  fails with the error that quotes that name, whatever the store answers to the calls, and
  the store is left as it was.
\<close>

theorem registerTeam_duplicate_name:
  assumes "keyed_by_teamName st" and "kv \<in> set st" and "teamName (snd kv) = name"
  shows "registerTeam F random now name p1 p2 mail phone st =
           (Inl (Error (''Team name \"'' @ name @ ''\" is already taken. Please choose a different name.'')),
            st)"
proof -
  have "fst kv = name" using assms by (auto simp: keyed_by_teamName_def list_all_iff)
  then have "has_key st name" using assms(2) by (force simp: has_key_iff)
  then have "isTeamNameTaken (f_name F) st name"
    by (simp add: isTeamNameTaken_def getDoc_def has_key_def split: option.splits)
  then show ?thesis
    by (simp add: registerTeam_def rethrow_def name_taken_message_def)
qed

theorem registerTeam_duplicate_name_witness:
  "registerTeam no_faults (random_const 0) 0 ''Beta'' ''Cy'' ''Di'' ''new@example.com''
      ''+1234567890'' collision_store
   = (Inl (Error ''Team name \"Beta\" is already taken. Please choose a different name.''),
      collision_store)"
proof -
  have k: "keyed_by_teamName collision_store"
    by (simp add: keyed_by_teamName_def collision_store_def example_team_def)
  have m: "(''Beta'', example_team 2 ''Beta'' ''qK234'' 20) \<in> set collision_store"
    by (simp add: collision_store_def)
  have t: "teamName (snd (''Beta'', example_team 2 ''Beta'' ''qK234'' 20)) = ''Beta''"
    by (simp add: example_team_def)
  from registerTeam_duplicate_name[OF k m t, of no_faults "random_const 0" 0 "''Cy''" "''Di''"
      "''new@example.com''" "''+1234567890''"]
  show ?thesis by simp
qed

text \<open>
  The comparison is exact: the name \<^verbatim>\<open>beta\<close> is free while \<^verbatim>\<open>Beta\<close> is stored.
\<close>

lemma registerTeam_name_case_sensitive:
  "fst (registerTeam no_faults (random_const 0) 0 ''beta'' ''Cy'' ''Di'' ''new@example.com''
         ''+1234567890'' collision_store)
   = Inr \<lparr>docId = Some ''beta'', teamNumber = 4, teamName = ''beta'', uid = ''AAAAA'',
          player1 = ''Cy'', player2 = ''Di'', email = ''new@example.com'',
          phoneNumber = ''+1234567890'', score = 0, createdAt = 0\<rparr>"
  by (simp add: registerTeam_defs no_faults_def collision_store_def example_team_def
      generateUID_zero)

section \<open>Team numbers\<close>

lemma rtdb_registerTeam_result:
  "rtdb_registerTeam no_faults random now name p1 p2 mail phone db =
     (if db \<noteq> [] \<and> list_ex (\<lambda>kv. teamName (snd kv) = name) db
      then (Inl (Error (name_taken_message name)), db)
      else if db \<noteq> [] \<and> list_ex (\<lambda>kv. email (snd kv) = mail) db
      then (Inl (Error email_taken_message), db)
      else
        (Inr \<lparr>docId = None, teamNumber = rtdb_getNextTeamNumber None None db, teamName = name,
              uid = generateUID random, player1 = p1, player2 = p2, email = mail,
              phoneNumber = phone, score = 0, createdAt = now\<rparr>,
         put (generateUID random)
           \<lparr>docId = None, teamNumber = rtdb_getNextTeamNumber None None db, teamName = name,
              uid = generateUID random, player1 = p1, player2 = p2, email = mail,
              phoneNumber = phone, score = 0, createdAt = now\<rparr> db))"
  by (simp add: rtdb_registerTeam_def no_faults_simps ensureAuth_def rtdb_isTeamNameTaken_def
      rtdb_isEmailTaken_def rtdb_get_root_def rtdb_set_def rethrow_def Let_def)

text \<open>
  Claim C5. The claim asks that the N-th successfully registered team receives the team
  number N. In the Realtime Database variant three registrations from the empty database
  succeed and receive the numbers 1, 2, 2: the first two draw the same identifier, which
  \<^verbatim>\<open>registerTeam\<close> does not look up before it writes, the node of team Beta replaces the
  node of team Alpha, and the count of the nodes is 1 again when team Gamma registers.
  Two nodes are left, both with team number 2.
\<close>

theorem teamNumber_repeats_after_uid_collision:
  "map teamNumber (successes (fst (register_all rtdb_register
      [example_request 0 ''Alpha'', example_request 0 ''Beta'', example_request (1/2) ''Gamma''] [])))
   = [1, 2, 2]
   \<and> map (\<lambda>kv. (fst kv, teamName (snd kv), teamNumber (snd kv)))
       (snd (register_all rtdb_register
          [example_request 0 ''Alpha'', example_request 0 ''Beta'', example_request (1/2) ''Gamma'']
          []))
   = [(''AAAAA'', ''Beta'', 2), (''fffff'', ''Gamma'', 2)]"
  by (simp add: rtdb_register_def rtdb_registerTeam_result example_request_def successes_def
      generateUID_zero generateUID_half rtdb_getNextTeamNumber_def ensureAuth_def rtdb_get_root_def
      put_def has_key_def valid_node_def)

section \<open>Reachable stores\<close>

text \<open>
  The empty collection is such a store, and \<^verbatim>\<open>registerTeam\<close> and \<^verbatim>\<open>updateScore\<close> keep
  it one, whatever the store answers.
\<close>

lemma set_put_subset: "set (put k v st) \<subseteq> insert (k, v) (set st)"
  by (auto simp: put_def set_insort_key)

lemma keyed_put:
  "keyed_by_teamName st \<Longrightarrow> teamName v = k \<Longrightarrow> keyed_by_teamName (put k v st)"
  using set_put_subset[of k v st] by (auto simp: keyed_by_teamName_def list_all_iff)

lemma keyed_modify:
  "keyed_by_teamName st \<Longrightarrow> (\<And>t. teamName (f t) = teamName t) \<Longrightarrow> keyed_by_teamName (modify k f st)"
  by (auto simp: keyed_by_teamName_def list_all_iff modify_def)

lemma store_ok_empty: "store_ok []"
  by (simp add: store_ok_def keyed_by_teamName_def)

lemma registerTeam_store_ok:
  assumes "store_ok st"
  shows "store_ok (snd (registerTeam F random now name p1 p2 mail phone st))"
proof -
  consider (name) "isTeamNameTaken (f_name F) st name"
    | (mail) "\<not> isTeamNameTaken (f_name F) st name" "isEmailTaken (f_email F) st mail"
    | (free) "\<not> isTeamNameTaken (f_name F) st name" "\<not> isEmailTaken (f_email F) st mail"
    by blast
  then show ?thesis
  proof cases
    case name
    then show ?thesis using assms by (simp add: registerTeam_name_taken)
  next
    case mail
    then show ?thesis using assms by (simp add: registerTeam_email_taken)
  next
    case free
    show ?thesis
    proof (cases "f_write F")
      case None
      then show ?thesis
        using assms free
        by (simp add: registerTeam_write store_ok_def distinct_put sorted_put keyed_put)
    next
      case (Some e)
      then show ?thesis using assms free by (simp add: registerTeam_write)
    qed
  qed
qed

lemma updateScore_store_ok:
  assumes "store_ok st"
  shows "store_ok (snd (updateScore f_query f_update u n st))"
proof -
  have "store_ok (modify k (\<lambda>t. t\<lparr>score := score t + n\<rparr>) st)" for k
    using assms by (simp add: store_ok_def map_fst_modify keyed_modify)
  then show ?thesis
    using assms
    by (auto simp: updateScore_def getDocs_where_def updateDoc_increment_def
        split: option.splits list.splits)
qed

section \<open>The registration endpoint\<close>

lemma register_handler_valid:
  assumes "passes_validation body"
  shows "register_handler register ''POST'' body st =
     (case register (trim (str (body_teamName body))) (trim (str (body_player1 body)))
             (trim (str (body_player2 body))) (trim (str (body_email body)))
             (trim (str (body_phoneNumber body))) st of
        (Inr team, st') \<Rightarrow>
          ((201, TeamResponse (teamNumber team) (teamName team) (uid team) (player1 team)
                   (player2 team) (email team) (phoneNumber team) (score team)), st')
      | (Inl error, st') \<Rightarrow>
          ((500, ErrorResponse (message_or error ''Internal server error'')), st'))"
  using assms by (simp add: register_handler_def passes_validation_def not_string_def)

lemma registerTeam_fault_fails:
  assumes "f_name F \<noteq> None \<or> f_email F \<noteq> None \<or> f_write F \<noteq> None"
  shows "\<exists>m. registerTeam F random now name p1 p2 mail phone st = (Inl (Error m), st)"
proof -
  consider (name) "isTeamNameTaken (f_name F) st name"
    | (mail) "\<not> isTeamNameTaken (f_name F) st name" "isEmailTaken (f_email F) st mail"
    | (free) "\<not> isTeamNameTaken (f_name F) st name" "\<not> isEmailTaken (f_email F) st mail"
    by blast
  then show ?thesis
  proof cases
    case name
    then show ?thesis by (simp add: registerTeam_name_taken)
  next
    case mail
    then show ?thesis by (simp add: registerTeam_email_taken)
  next
    case free
    then have "f_name F = None" "f_email F = None"
      by (auto simp: isTeamNameTaken_def isEmailTaken_def getDoc_def getDocs_where_def
          split: option.splits)
    with assms obtain e where "f_write F = Some e" by auto
    then show ?thesis
      using free by (cases e) (simp_all add: registerTeam_write rethrow_def)
  qed
qed

lemma example_body_valid: "passes_validation (example_body ''Delta'')"
  by (simp add: passes_validation_def example_body_def falsy_def is_string_def str_def trim_def
      white_space_def emailRegex_test_def phoneRegex_test_def email_char_def phone_char_def upt_rec)

lemmas handler_defs =
  register_handler_def example_body_def falsy_def is_string_def not_string_def str_def trim_def
  white_space_def emailRegex_test_def phoneRegex_test_def email_char_def phone_char_def
  message_or_def upt_rec

text \<open>
  Claim C6, as amended, for the Firestore variant keyed by team name behind the handler of
  \<^verbatim>\<open>POST /api/register\<close>. When the name lookup, the email query or the write is
  rejected by the store, a request that passes validation is answered with status 500 and
  an error body, and the store is left as it was. The error text is the duplicate-name
  message when the name lookup was rejected, the duplicate-email message when the email
  query was rejected (the name lookup answered and the name free), and the message of the
  store's error when the write was rejected (a fixed text when what the store threw is not
  an \<^verbatim>\<open>Error\<close>). When only the count query is rejected the registration succeeds: the
  team number is 1 and the record is stored.
\<close>

theorem registerTeam_store_failure:
  "(passes_validation body \<and> (f_name F \<noteq> None \<or> f_email F \<noteq> None \<or> f_write F \<noteq> None) \<longrightarrow>
      (\<exists>msg. register_handler (registerTeam F random now) ''POST'' body st
                = ((500, ErrorResponse msg), st)))
   \<and> (f_name F \<noteq> None \<longrightarrow>
        registerTeam F random now name p1 p2 mail phone st
          = (Inl (Error (name_taken_message name)), st))
   \<and> (f_name F = None \<and> \<not> has_key st name \<and> f_email F \<noteq> None \<longrightarrow>
        registerTeam F random now name p1 p2 mail phone st
          = (Inl (Error email_taken_message), st))
   \<and> (f_name F = None \<and> \<not> has_key st name \<and> f_email F = None
        \<and> list_all (\<lambda>kv. email (snd kv) \<noteq> mail) st \<and> f_write F = Some e \<longrightarrow>
        registerTeam F random now name p1 p2 mail phone st = (Inl (rethrow e), st))
   \<and> (f_name F = None \<and> \<not> has_key st name \<and> f_email F = None
        \<and> list_all (\<lambda>kv. email (snd kv) \<noteq> mail) st \<and> f_write F = None \<and> f_count F \<noteq> None \<longrightarrow>
        (\<exists>team. registerTeam F random now name p1 p2 mail phone st
                   = (Inr team, put name (team\<lparr>docId := None\<rparr>) st)
                \<and> teamNumber team = 1))"
proof (intro conjI impI)
  assume a: "passes_validation body \<and> (f_name F \<noteq> None \<or> f_email F \<noteq> None \<or> f_write F \<noteq> None)"
  then obtain m where "registerTeam F random now (trim (str (body_teamName body)))
      (trim (str (body_player1 body))) (trim (str (body_player2 body)))
      (trim (str (body_email body))) (trim (str (body_phoneNumber body))) st = (Inl (Error m), st)"
    using registerTeam_fault_fails by blast
  then show "\<exists>msg. register_handler (registerTeam F random now) ''POST'' body st
                = ((500, ErrorResponse msg), st)"
    using a by (simp add: register_handler_valid message_or_def)
next
  assume "f_name F \<noteq> None"
  then have "isTeamNameTaken (f_name F) st name"
    by (auto simp: isTeamNameTaken_def getDoc_def)
  then show "registerTeam F random now name p1 p2 mail phone st
          = (Inl (Error (name_taken_message name)), st)"
    by (rule registerTeam_name_taken)
next
  assume "f_name F = None \<and> \<not> has_key st name \<and> f_email F \<noteq> None"
  then have "\<not> isTeamNameTaken (f_name F) st name" "isEmailTaken (f_email F) st mail"
    by (auto simp: isTeamNameTaken_def isEmailTaken_def getDoc_def getDocs_where_def has_key_def)
  then show "registerTeam F random now name p1 p2 mail phone st
          = (Inl (Error email_taken_message), st)"
    by (rule registerTeam_email_taken)
next
  assume a: "f_name F = None \<and> \<not> has_key st name \<and> f_email F = None
        \<and> list_all (\<lambda>kv. email (snd kv) \<noteq> mail) st \<and> f_write F = Some e"
  then have "filter (\<lambda>kv. email (snd kv) = mail) st = []"
    by (auto simp: list_all_iff filter_empty_conv)
  with a have "\<not> isTeamNameTaken (f_name F) st name" "\<not> isEmailTaken (f_email F) st mail"
    by (auto simp: isTeamNameTaken_def isEmailTaken_def getDoc_def getDocs_where_def has_key_def)
  then show "registerTeam F random now name p1 p2 mail phone st = (Inl (rethrow e), st)"
    using a by (simp add: registerTeam_write)
next
  assume a: "f_name F = None \<and> \<not> has_key st name \<and> f_email F = None
        \<and> list_all (\<lambda>kv. email (snd kv) \<noteq> mail) st \<and> f_write F = None \<and> f_count F \<noteq> None"
  then have "filter (\<lambda>kv. email (snd kv) = mail) st = []"
    by (auto simp: list_all_iff filter_empty_conv)
  with a have "\<not> isTeamNameTaken (f_name F) st name" "\<not> isEmailTaken (f_email F) st mail"
    by (auto simp: isTeamNameTaken_def isEmailTaken_def getDoc_def getDocs_where_def has_key_def)
  moreover have "getNextTeamNumber (f_count F) st = 1"
    using a by (auto simp: getNextTeamNumber_def getDocs_def)
  ultimately show "\<exists>team. registerTeam F random now name p1 p2 mail phone st
                   = (Inr team, put name (team\<lparr>docId := None\<rparr>) st)
                \<and> teamNumber team = 1"
    using a by (simp add: registerTeam_write)
qed

theorem registerTeam_store_failure_witness:
  "(\<exists>msg. register_handler (registerTeam write_fault (random_const 0) 0) ''POST''
             (example_body ''Delta'') collision_store
           = ((500, ErrorResponse msg), collision_store))
   \<and> registerTeam name_fault (random_const 0) 0 ''Delta'' ''Ann'' ''Bob'' ''Delta@example.com''
        ''+1234567890'' collision_store
      = (Inl (Error ''Team name \"Delta\" is already taken. Please choose a different name.''),
         collision_store)
   \<and> registerTeam email_fault (random_const 0) 0 ''Delta'' ''Ann'' ''Bob'' ''Delta@example.com''
        ''+1234567890'' collision_store
      = (Inl (Error ''This email address is already registered. Please use a different email.''),
         collision_store)
   \<and> registerTeam write_fault (random_const 0) 0 ''Delta'' ''Ann'' ''Bob'' ''Delta@example.com''
        ''+1234567890'' collision_store
      = (Inl (Error ''unavailable''), collision_store)
   \<and> (\<exists>team. registerTeam count_fault (random_const 0) 0 ''Delta'' ''Ann'' ''Bob''
                 ''Delta@example.com'' ''+1234567890'' collision_store
                = (Inr team, put ''Delta'' (team\<lparr>docId := None\<rparr>) collision_store)
              \<and> teamNumber team = 1)"
proof -
  have free: "\<not> has_key collision_store ''Delta''"
    "list_all (\<lambda>kv. email (snd kv) \<noteq> ''Delta@example.com'') collision_store"
    by (simp_all add: has_key_def collision_store_def example_team_def)
  have n: "f_name name_fault \<noteq> None"
    by (simp add: name_fault_def no_faults_def)
  have m: "f_name email_fault = None \<and> \<not> has_key collision_store ''Delta''
        \<and> f_email email_fault \<noteq> None"
    using free by (simp add: email_fault_def no_faults_def)
  have w: "f_name write_fault = None \<and> \<not> has_key collision_store ''Delta''
        \<and> f_email write_fault = None
        \<and> list_all (\<lambda>kv. email (snd kv) \<noteq> ''Delta@example.com'') collision_store
        \<and> f_write write_fault = Some (Error ''unavailable'')"
    using free by (simp add: write_fault_def no_faults_def)
  have h: "passes_validation (example_body ''Delta'')
        \<and> (f_name write_fault \<noteq> None \<or> f_email write_fault \<noteq> None \<or> f_write write_fault \<noteq> None)"
    by (simp add: example_body_valid write_fault_def no_faults_def)
  have c: "f_name count_fault = None \<and> \<not> has_key collision_store ''Delta''
        \<and> f_email count_fault = None
        \<and> list_all (\<lambda>kv. email (snd kv) \<noteq> ''Delta@example.com'') collision_store
        \<and> f_write count_fault = None \<and> f_count count_fault \<noteq> None"
    using free by (simp add: count_fault_def no_faults_def)
  note at = registerTeam_store_failure[of "example_body ''Delta''" _ "random_const 0" 0
      collision_store "''Delta''" "''Ann''" "''Bob''" "''Delta@example.com''" "''+1234567890''"]
  have 1: "\<exists>msg. register_handler (registerTeam write_fault (random_const 0) 0) ''POST''
             (example_body ''Delta'') collision_store
           = ((500, ErrorResponse msg), collision_store)"
    using at[of write_fault] h by blast
  have 2: "registerTeam name_fault (random_const 0) 0 ''Delta'' ''Ann'' ''Bob'' ''Delta@example.com''
        ''+1234567890'' collision_store
      = (Inl (Error (name_taken_message ''Delta'')), collision_store)"
    using at[of name_fault] n by blast
  have 3: "registerTeam email_fault (random_const 0) 0 ''Delta'' ''Ann'' ''Bob'' ''Delta@example.com''
        ''+1234567890'' collision_store
      = (Inl (Error email_taken_message), collision_store)"
    using at[of email_fault] m by blast
  have 4: "registerTeam write_fault (random_const 0) 0 ''Delta'' ''Ann'' ''Bob'' ''Delta@example.com''
        ''+1234567890'' collision_store
      = (Inl (rethrow (Error ''unavailable'')), collision_store)"
    using at[of write_fault "Error ''unavailable''"] w by blast
  have 5: "\<exists>team. registerTeam count_fault (random_const 0) 0 ''Delta'' ''Ann'' ''Bob''
                 ''Delta@example.com'' ''+1234567890'' collision_store
                = (Inr team, put ''Delta'' (team\<lparr>docId := None\<rparr>) collision_store)
              \<and> teamNumber team = 1"
    using at[of count_fault] c by blast
  from 1 2 3 4 5 show ?thesis
    by (simp add: name_taken_message_def email_taken_message_def rethrow_def)
qed

text \<open>
  The claim as stated fails when the count query is rejected and the other calls are
  answered: the request is answered with status 201 and a fourth record is stored, with
  team number 1.
\<close>

theorem registerTeam_store_failure_counterexample:
  "register_handler (registerTeam count_fault (random_const 0) 0) ''POST'' (example_body ''Delta'')
      collision_store
     = ((201, TeamResponse 1 ''Delta'' ''AAAAA'' ''Ann'' ''Bob'' ''Delta@example.com''
               ''+1234567890'' 0),
        [(''Alpha'', example_team 1 ''Alpha'' ''qK234'' 10),
         (''Beta'', example_team 2 ''Beta'' ''qK234'' 20),
         (''Delta'', example_team 1 ''Delta'' ''AAAAA'' 0),
         (''Gamma'', example_team 3 ''Gamma'' ''zz999'' 30)])"
  by (simp add: handler_defs registerTeam_defs count_fault_def no_faults_def collision_store_def
      example_team_def generateUID_zero)

text \<open>
  A request that passes validation and names a team whose document exists is answered with
  status 500, whatever the store answers.
\<close>

lemma register_handler_duplicate:
  assumes "passes_validation body"
    and "has_key st (trim (str (body_teamName body)))"
  shows "register_handler (registerTeam F random now) ''POST'' body st
           = ((500, ErrorResponse (name_taken_message (trim (str (body_teamName body))))), st)"
proof -
  have "isTeamNameTaken (f_name F) st (trim (str (body_teamName body)))"
    using assms(2) by (simp add: isTeamNameTaken_def getDoc_def has_key_def split: option.splits)
  then show ?thesis
    by (simp add: register_handler_valid[OF assms(1)] registerTeam_name_taken message_or_def)
qed

text \<open>
  Claim C7. The claim asks for status 400 when the team name or the email of a
  \<^verbatim>\<open>POST /api/register\<close> request is already stored. The handler answers such requests
  with status 500 and \<^verbatim>\<open>{success: false, error}\<close>: here for the stored team name Beta,
  and for a new team name with the stored address of team Alpha.
\<close>

theorem register_duplicate_status_500:
  "register_handler (registerTeam no_faults (random_const 0) 0) ''POST'' (example_body ''Beta'')
      collision_store
     = ((500, ErrorResponse ''Team name \"Beta\" is already taken. Please choose a different name.''),
        collision_store)
   \<and> register_handler (registerTeam no_faults (random_const 0) 0) ''POST'' duplicate_email_body
      collision_store
     = ((500, ErrorResponse ''This email address is already registered. Please use a different email.''),
        collision_store)"
  by (simp add: handler_defs registerTeam_defs no_faults_def collision_store_def
      example_team_def duplicate_email_body_def)

text \<open>
  The registration page rejects a team name whose trimmed length is below 2 or above 30
  before it calls \<^verbatim>\<open>registerTeam\<close>.
\<close>

lemma handleSubmit_rejects_length:
  assumes "length (trim name) < 2 \<or> 30 < length (trim name)"
  shows "\<exists>msg. handleSubmit register name p1 p2 mail phone st = (Inl msg, st)"
  using assms by (auto simp: handleSubmit_def)

text \<open>
  Claim C8. The claim asks that a team name shorter than 2 or longer than 30 characters is
  rejected and nothing stored. The handler of \<^verbatim>\<open>POST /api/register\<close> has no check of the
  length: it registers the one-character name A, answering 201 and storing the record, and
  likewise a name of 31 characters. The registration page rejects the same name A.
\<close>

theorem register_handler_accepts_short_name:
  "register_handler (registerTeam no_faults (random_const 0) 0) ''POST'' (example_body ''A'') []
     = ((201, TeamResponse 1 ''A'' ''AAAAA'' ''Ann'' ''Bob'' ''A@example.com'' ''+1234567890'' 0),
        [(''A'', example_team 1 ''A'' ''AAAAA'' 0)])
   \<and> fst (register_handler (registerTeam no_faults (random_const 0) 0) ''POST''
            (example_body long_name) [])
     = (201, TeamResponse 1 long_name ''AAAAA'' ''Ann'' ''Bob'' (long_name @ ''@example.com'')
               ''+1234567890'' 0)
   \<and> handleSubmit (registerTeam no_faults (random_const 0) 0) ''A'' ''Ann'' ''Bob''
        ''A@example.com'' ''+1234567890'' []
     = (Inl ''Team name must be between 2 and 30 characters'', [])"
  by (simp add: handler_defs handleSubmit_def registerTeam_defs no_faults_def example_team_def
      generateUID_zero long_name_def)

section \<open>The scoreboard list is sorted\<close>

lemma mset_insert_sorted: "mset (insert_sorted c x xs) = add_mset x (mset xs)"
  by (induction xs) auto

lemma mset_array_sort: "mset (array_sort c xs) = mset xs"
  by (induction xs) (auto simp: array_sort_def mset_insert_sorted)

lemma set_insert_sorted: "set (insert_sorted c x xs) = insert x (set xs)"
  by (induction xs) auto

lemma sorted_insert_sorted:
  assumes total: "\<And>a b. \<not> c a b \<le> 0 \<Longrightarrow> c b a \<le> 0"
    and trans: "\<And>a b d. c a b \<le> 0 \<Longrightarrow> c b d \<le> 0 \<Longrightarrow> c a d \<le> 0"
    and "sorted_wrt (\<lambda>a b. c a b \<le> 0) xs"
  shows "sorted_wrt (\<lambda>a b. c a b \<le> 0) (insert_sorted c x xs)"
  using assms(3)
proof (induction xs)
  case Nil
  then show ?case by simp
next
  case (Cons y ys)
  show ?case
  proof (cases "c x y \<le> 0")
    case True
    with Cons.prems trans show ?thesis by auto
  next
    case False
    then have "c y x \<le> 0" by (rule total)
    with False Cons show ?thesis by (auto simp: set_insert_sorted)
  qed
qed

lemma sorted_array_sort:
  assumes "\<And>a b. \<not> c a b \<le> 0 \<Longrightarrow> c b a \<le> 0"
    and "\<And>a b d. c a b \<le> 0 \<Longrightarrow> c b d \<le> 0 \<Longrightarrow> c a d \<le> 0"
  shows "sorted_wrt (\<lambda>a b. c a b \<le> 0) (array_sort c xs)"
proof (induction xs)
  case Nil
  then show ?case by (simp add: array_sort_def)
next
  case (Cons x xs)
  have "array_sort c (x # xs) = insert_sorted c x (array_sort c xs)"
    by (simp add: array_sort_def)
  with Cons sorted_insert_sorted[of c, OF assms] show ?case by simp
qed

lemma compareTeams_le: "compareTeams a b \<le> 0 \<longleftrightarrow> score_desc_teamNumber_asc a b"
  by (auto simp: compareTeams_def score_desc_teamNumber_asc_def)

lemma sorted_compareTeams: "sorted_wrt score_desc_teamNumber_asc (array_sort compareTeams xs)"
proof -
  have "sorted_wrt (\<lambda>a b. compareTeams a b \<le> 0) (array_sort compareTeams xs)"
    by (rule sorted_array_sort) (auto simp: compareTeams_def split: if_splits)
  then show ?thesis by (simp add: compareTeams_le)
qed

lemma with_id_fields: "score (with_id doc) = score (snd doc)" "teamNumber (with_id doc) = teamNumber (snd doc)"
  by (simp_all add: with_id_def split: option.splits)

lemma rtdb_getAllTeams_answered:
  "rtdb_getAllTeams None None db = array_sort compareTeams (map snd (filter valid_node db))"
  by (simp add: rtdb_getAllTeams_def ensureAuth_def rtdb_get_root_def array_sort_def)

text \<open>
  Claim C4, as amended. With the store answering, the scoreboard list of the Realtime
  Database variant is sorted by score descending, ties broken by team number ascending,
  and holds exactly the nodes that have a non-empty team name: every node when each has
  one. For scores 50, 50, 10 with team numbers 2, 1, 3 the order is team 1, team 2,
  team 3. The list of the Firestore variants is the store's answer to the ordered query,
  each document with its \<^verbatim>\<open>id\<close>, in the order of the answer: when the answer holds the
  documents of the collection in that order, so does the list.
\<close>

theorem scoreboard_list_named_records_sorted:
  "sorted_wrt score_desc_teamNumber_asc (rtdb_getAllTeams None None db)
   \<and> mset (rtdb_getAllTeams None None db) = mset (map snd (filter valid_node db))
   \<and> (list_all valid_node db \<longrightarrow> mset (rtdb_getAllTeams None None db) = mset (map snd db))
   \<and> map (\<lambda>t. (teamNumber t, score t)) (rtdb_getAllTeams None None scoreboard_example)
       = [(1, 50), (2, 50), (3, 10)]
   \<and> (mset snapshot = mset st
        \<and> sorted_wrt (\<lambda>a b. score_desc_teamNumber_asc (snd a) (snd b)) snapshot \<longrightarrow>
          sorted_wrt score_desc_teamNumber_asc (getAllTeams (Inr snapshot))
        \<and> mset (getAllTeams (Inr snapshot)) = mset (map with_id st))"
proof (intro conjI impI)
  show "sorted_wrt score_desc_teamNumber_asc (rtdb_getAllTeams None None db)"
    by (simp add: rtdb_getAllTeams_answered sorted_compareTeams)
  show "mset (rtdb_getAllTeams None None db) = mset (map snd (filter valid_node db))"
    by (simp add: rtdb_getAllTeams_answered mset_array_sort)
  show "mset (rtdb_getAllTeams None None db) = mset (map snd db)" if "list_all valid_node db"
  proof -
    have "filter valid_node db = db" using that by (simp add: list_all_iff)
    then show ?thesis by (simp add: rtdb_getAllTeams_answered mset_array_sort)
  qed
  show "map (\<lambda>t. (teamNumber t, score t)) (rtdb_getAllTeams None None scoreboard_example)
       = [(1, 50), (2, 50), (3, 10)]"
    by (simp add: rtdb_getAllTeams_def ensureAuth_def rtdb_get_root_def scoreboard_example_def
        valid_node_def example_team_def array_sort_def compareTeams_def)
next
  assume a: "mset snapshot = mset st
        \<and> sorted_wrt (\<lambda>a b. score_desc_teamNumber_asc (snd a) (snd b)) snapshot"
  then show "sorted_wrt score_desc_teamNumber_asc (getAllTeams (Inr snapshot))"
    by (simp add: getAllTeams_def sorted_wrt_map score_desc_teamNumber_asc_def with_id_fields)
  have "mset (map with_id snapshot) = mset (map with_id st)"
    using a by (metis mset_map)
  then show "mset (getAllTeams (Inr snapshot)) = mset (map with_id st)"
    by (simp add: getAllTeams_def)
qed

theorem scoreboard_list_named_records_sorted_witness:
  "list_all valid_node scoreboard_example
   \<and> mset (rtdb_getAllTeams None None scoreboard_example) = mset (map snd scoreboard_example)
   \<and> mset ordered_answer = mset scoreboard_example
   \<and> sorted_wrt (\<lambda>a b. score_desc_teamNumber_asc (snd a) (snd b)) ordered_answer
   \<and> sorted_wrt score_desc_teamNumber_asc (getAllTeams (Inr ordered_answer))
   \<and> mset (getAllTeams (Inr ordered_answer)) = mset (map with_id scoreboard_example)
   \<and> map (\<lambda>t. (docId t, teamNumber t, score t)) (getAllTeams (Inr ordered_answer))
       = [(Some ''bbbbb'', 1, 50), (Some ''aaaaa'', 2, 50), (Some ''ccccc'', 3, 10)]"
proof -
  have v: "list_all valid_node scoreboard_example"
    by (simp add: scoreboard_example_def valid_node_def example_team_def)
  have m: "mset ordered_answer = mset scoreboard_example"
    by (simp add: ordered_answer_def scoreboard_example_def)
  have o: "sorted_wrt (\<lambda>a b. score_desc_teamNumber_asc (snd a) (snd b)) ordered_answer"
    by (simp add: ordered_answer_def score_desc_teamNumber_asc_def example_team_def)
  have l: "map (\<lambda>t. (docId t, teamNumber t, score t)) (getAllTeams (Inr ordered_answer))
       = [(Some ''bbbbb'', 1, 50), (Some ''aaaaa'', 2, 50), (Some ''ccccc'', 3, 10)]"
    by (simp add: getAllTeams_def with_id_def ordered_answer_def example_team_def)
  note listed = scoreboard_list_named_records_sorted[of scoreboard_example ordered_answer
            scoreboard_example]
  have r: "mset (rtdb_getAllTeams None None scoreboard_example) = mset (map snd scoreboard_example)"
    using listed v by blast
  have f: "sorted_wrt score_desc_teamNumber_asc (getAllTeams (Inr ordered_answer))
           \<and> mset (getAllTeams (Inr ordered_answer)) = mset (map with_id scoreboard_example)"
    using listed m o by blast
  show ?thesis
    using v r m o f l by blast
qed

text \<open>
  The claim as stated fails in the Realtime Database variant. \<^verbatim>\<open>POST /api/register\<close>
  with a team name of three spaces is answered with status 201, and the record is stored
  with the empty team name; the scoreboard list of that database is empty.
\<close>

theorem scoreboard_list_omits_unnamed_record:
  "register_handler (rtdb_registerTeam no_faults (random_const 0) 0) ''POST'' blank_name_body []
     = ((201, TeamResponse 1 [] ''AAAAA'' ''Ann'' ''Bob'' ''Zed@example.com'' ''+1234567890'' 0),
        blank_name_store)
   \<and> map (\<lambda>kv. (fst kv, teamName (snd kv))) blank_name_store = [(''AAAAA'', [])]
   \<and> rtdb_getAllTeams None None blank_name_store = []"
proof -
  have v: "passes_validation blank_name_body"
    by (simp add: passes_validation_def blank_name_body_def example_body_def falsy_def
        is_string_def str_def trim_def white_space_def emailRegex_test_def email_char_def
        phoneRegex_test_def phone_char_def)
  have t: "trim ''   '' = []"
    by (simp add: trim_def white_space_def)
  have "register_handler (rtdb_registerTeam no_faults (random_const 0) 0) ''POST'' blank_name_body []
     = ((201, TeamResponse 1 [] ''AAAAA'' ''Ann'' ''Bob'' ''Zed@example.com'' ''+1234567890'' 0),
        blank_name_store)"
    using register_handler_valid[OF v, of "rtdb_registerTeam no_faults (random_const 0) 0" "[]"]
    by (simp add: blank_name_body_def example_body_def str_def t rtdb_registerTeam_result
        rtdb_getNextTeamNumber_def ensureAuth_def rtdb_get_root_def generateUID_zero put_def
        has_key_def blank_name_store_def example_team_def)
       (simp add: trim_def white_space_def)
  moreover have "rtdb_getAllTeams None None blank_name_store = []"
    by (simp add: rtdb_getAllTeams_answered blank_name_store_def valid_node_def array_sort_def)
  ultimately show ?thesis by (simp add: blank_name_store_def example_team_def)
qed

end
